theory Spec2Isabelle
  imports Main
begin

section \<open>The key-value store of main.go\<close>

text \<open>
  The store is the Go struct
  \<^verbatim>\<open>type KVStore[K comparable, V any] struct { mu sync.RWMutex; data map[K]V }\<close>.
  Every exported method takes \<open>mu\<close> on entry and releases it by a deferred unlock before
  it returns, so between two calls of a sequential client the mutex is free and the only
  state that a call hands to the next one is the map. The map is allocated by
  \<open>make\<close> in the only constructor and the field is never reassigned, so it is a Go map
  that is not nil: a partial function from keys to values.
\<close>

record ('k, 'v) KVStore =
  data :: "'k \<rightharpoonup> 'v"

text \<open>
  The only error of the program is built in \<open>Read\<close> by
  \<^verbatim>\<open>fmt.Errorf("key (%v) does not exists", key)\<close>; it is kept as a constructor that
  carries the key. A Go \<open>error\<close> result is an \<open>error option\<close>, \<open>None\<close> being \<open>nil\<close>.
\<close>

datatype 'k error = KeyDoesNotExist 'k

text \<open>The message of the error (Go's \<open>err.Error()\<close>) where the key is a string.\<close>

fun Error :: "string error \<Rightarrow> string" where
  "Error (KeyDoesNotExist key) = ''key ('' @ key @ '') does not exists''"

text \<open>
  Go's two-result map index \<^verbatim>\<open>value, ok := m[key]\<close>: for a missing key it yields the
  zero value of \<open>V\<close> and \<open>false\<close>. HOL types have no zero value, so the zero value of the
  value type is the first argument of every function that can read a missing key.
\<close>

definition index2 :: "'v \<Rightarrow> ('k \<rightharpoonup> 'v) \<Rightarrow> 'k \<Rightarrow> 'v \<times> bool" where
  "index2 zero m key = (case m key of None \<Rightarrow> (zero, False) | Some value \<Rightarrow> (value, True))"

text \<open>The zero value of Go's \<open>string\<close>, the value type of the server's store.\<close>

definition zero_string :: string where
  "zero_string = ''''"

subsection \<open>Constructor and methods\<close>

definition NewKVStore :: "('k, 'v) KVStore" where
  "NewKVStore = \<lparr>data = Map.empty\<rparr>"

definition Has :: "'v \<Rightarrow> ('k, 'v) KVStore \<Rightarrow> 'k \<Rightarrow> 'v \<times> bool" where
  "Has zero k key = index2 zero (data k) key"

text \<open>The methods that write return the store they leave behind and their Go results.\<close>

definition Create :: "('k, 'v) KVStore \<Rightarrow> 'k \<Rightarrow> 'v \<Rightarrow> ('k, 'v) KVStore \<times> 'k error option" where
  "Create k key value = (k\<lparr>data := (data k)(key \<mapsto> value)\<rparr>, None)"

definition Read :: "'v \<Rightarrow> ('k, 'v) KVStore \<Rightarrow> 'k \<Rightarrow> 'v \<times> 'k error option" where
  "Read zero k key =
     (let (value, ok) = index2 zero (data k) key
      in if \<not> ok then (value, Some (KeyDoesNotExist key)) else (value, None))"

definition Update :: "'v \<Rightarrow> ('k, 'v) KVStore \<Rightarrow> 'k \<Rightarrow> 'v \<Rightarrow> ('k, 'v) KVStore \<times> 'k error option" where
  "Update zero k key value =
     (let (_, keyExists) = Has zero k key
      in if keyExists then (k\<lparr>data := (data k)(key \<mapsto> value)\<rparr>, None) else (k, None))"

definition Delete :: "'v \<Rightarrow> ('k, 'v) KVStore \<Rightarrow> 'k \<Rightarrow> ('k, 'v) KVStore \<times> ('v \<times> 'k error option)" where
  "Delete zero k key =
     (let (v, keyExists) = Has zero k key
      in if keyExists then (k\<lparr>data := (data k)(key := None)\<rparr>, (v, None)) else (k, (v, None)))"

section \<open>What each method does to the map\<close>

lemma index2_present: "m key = Some value \<Longrightarrow> index2 zero m key = (value, True)"
  by (simp add: index2_def)

lemma index2_absent: "m key = None \<Longrightarrow> index2 zero m key = (zero, False)"
  by (simp add: index2_def)

lemma data_Create: "data (fst (Create k key value)) = (data k)(key \<mapsto> value)"
  by (simp add: Create_def)

lemma data_Update:
  "data (fst (Update zero k key value)) =
     (if key \<in> dom (data k) then (data k)(key \<mapsto> value) else data k)"
  by (auto simp: Update_def Has_def index2_def split: option.splits)

lemma data_Delete: "data (fst (Delete zero k key)) = (data k)(key := None)"
  by (auto simp: Delete_def Has_def index2_def split: option.splits)

lemma Read_present: "data k key = Some value \<Longrightarrow> Read zero k key = (value, None)"
  by (simp add: Read_def index2_present)

lemma Read_absent: "data k key = None \<Longrightarrow> Read zero k key = (zero, Some (KeyDoesNotExist key))"
  by (simp add: Read_def index2_absent)

lemma Update_absent: "data k key = None \<Longrightarrow> Update zero k key value = (k, None)"
  by (simp add: Update_def Has_def index2_absent)

lemma Update_present:
  "data k key = Some old \<Longrightarrow>
     Update zero k key value = (k\<lparr>data := (data k)(key \<mapsto> value)\<rparr>, None)"
  by (simp add: Update_def Has_def index2_present)

lemma Delete_absent: "data k key = None \<Longrightarrow> Delete zero k key = (k, (zero, None))"
  by (simp add: Delete_def Has_def index2_absent)

lemma Delete_present:
  "data k key = Some old \<Longrightarrow>
     Delete zero k key = (k\<lparr>data := (data k)(key := None)\<rparr>, (old, None))"
  by (simp add: Delete_def Has_def index2_present)

section \<open>The claims of the specification\<close>

text \<open>
  C1. For every key \<open>key\<close> and value \<open>value\<close>, on any store \<open>k\<close>: after
  \<open>Create(key, value)\<close>, \<open>Read(key)\<close> returns \<open>value\<close> and a nil error.
\<close>

theorem C1_Read_after_Create:
  "Read zero (fst (Create k key value)) key = (value, None)"
  by (rule Read_present) (simp add: data_Create)

text \<open>
  C2. For every key absent from the store's map, \<open>Read\<close> returns the "does not exist" error
  for that key, and its value result is the zero value of \<open>V\<close>, whatever the store holds:
  no stored value is returned. In particular this is so for every key on the store that
  \<open>NewKVStore\<close> returns.
\<close>

theorem C2_Read_absent_key:
  "(key \<notin> dom (data k) \<longrightarrow> Read zero k key = (zero, Some (KeyDoesNotExist key)))
   \<and> Read zero NewKVStore key = (zero, Some (KeyDoesNotExist key))"
proof
  show "key \<notin> dom (data k) \<longrightarrow> Read zero k key = (zero, Some (KeyDoesNotExist key))"
    by (auto intro: Read_absent)
  show "Read zero NewKVStore key = (zero, Some (KeyDoesNotExist key))"
    by (rule Read_absent) (simp add: NewKVStore_def)
qed

theorem C2_Read_absent_key_witness:
  "''b'' \<notin> dom (data (fst (Create NewKVStore ''a'' ''1'')))
   \<and> Read zero_string (fst (Create NewKVStore ''a'' ''1'')) ''b''
       = ([], Some (KeyDoesNotExist ''b''))
   \<and> Error (KeyDoesNotExist ''b'') = ''key (b) does not exists''"
  using C2_Read_absent_key [of "''b''" "fst (Create NewKVStore ''a'' ''1'')" zero_string]
  by (simp add: data_Create NewKVStore_def zero_string_def)

text \<open>
  C3. For every key and values \<open>v1\<close>, \<open>v2\<close>: after \<open>Create(key, v1)\<close> and then
  \<open>Update(key, v2)\<close>, \<open>Read(key)\<close> returns \<open>v2\<close> and a nil error, so \<open>Update\<close> on an
  existing key overwrites its value.
\<close>

theorem C3_Read_after_Create_Update:
  "Read zero (fst (Update zero (fst (Create k key v1)) key v2)) key = (v2, None)"
  by (rule Read_present) (simp add: data_Update data_Create)

text \<open>
  C4. For every key absent from the store and every value, \<open>Update\<close> returns a nil error,
  leaves the whole store as it was, and the key is still absent afterwards.
\<close>

theorem C4_Update_absent_key:
  "key \<notin> dom (data k) \<Longrightarrow>
     snd (Update zero k key value) = None
     \<and> fst (Update zero k key value) = k
     \<and> key \<notin> dom (data (fst (Update zero k key value)))"
proof -
  assume absent: "key \<notin> dom (data k)"
  then have "data k key = None" by auto
  then have "Update zero k key value = (k, None)"
    by (rule Update_absent)
  with absent show ?thesis
    by simp
qed

theorem C4_Update_absent_key_witness:
  "''b'' \<notin> dom (data (fst (Create NewKVStore ''a'' ''1'')))
   \<and> snd (Update zero_string (fst (Create NewKVStore ''a'' ''1'')) ''b'' ''2'') = None
   \<and> fst (Update zero_string (fst (Create NewKVStore ''a'' ''1'')) ''b'' ''2'')
       = fst (Create NewKVStore ''a'' ''1'')
   \<and> ''b'' \<notin> dom (data (fst (Update zero_string (fst (Create NewKVStore ''a'' ''1'')) ''b'' ''2'')))"
proof -
  have absent: "''b'' \<notin> dom (data (fst (Create NewKVStore ''a'' ''1'')))"
    by (simp add: data_Create NewKVStore_def)
  from C4_Update_absent_key [OF absent, of zero_string "''2''"] absent
  show ?thesis
    by simp
qed

text \<open>
  C5. For every key and value: after \<open>Create(key, value)\<close>, \<open>Delete(key)\<close> returns the prior
  value \<open>value\<close> and a nil error, and removes the key from the map (every other entry stays),
  so that a following \<open>Read(key)\<close> fails with the "does not exist" error.
\<close>

theorem C5_Delete_after_Create:
  "snd (Delete zero (fst (Create k key value)) key) = (value, None)
   \<and> key \<notin> dom (data (fst (Delete zero (fst (Create k key value)) key)))
   \<and> data (fst (Delete zero (fst (Create k key value)) key)) = (data k)(key := None)
   \<and> Read zero (fst (Delete zero (fst (Create k key value)) key)) key
       = (zero, Some (KeyDoesNotExist key))"
proof -
  let ?c = "fst (Create k key value)"
  have "data ?c key = Some value"
    by (simp add: data_Create)
  then have res: "snd (Delete zero ?c key) = (value, None)"
    by (simp add: Delete_present)
  have gone: "data (fst (Delete zero ?c key)) = (data k)(key := None)"
    by (simp add: data_Delete data_Create)
  then have "data (fst (Delete zero ?c key)) key = None"
    by simp
  then have "Read zero (fst (Delete zero ?c key)) key = (zero, Some (KeyDoesNotExist key))"
    by (rule Read_absent)
  with res gone show ?thesis
    by simp
qed

text \<open>
  C6. For every key absent from the store, \<open>Delete\<close> returns the zero value of \<open>V\<close> and a nil
  error and leaves the store as it was. On a store of strings, as the server's is, the
  value returned is the empty string.
\<close>

theorem C6_Delete_absent_key:
  "key \<notin> dom (data k) \<Longrightarrow>
     Delete zero k key = (k, (zero, None))
     \<and> (skey \<notin> dom (data sk) \<longrightarrow> Delete zero_string sk skey = (sk, ([], None)))"
proof -
  assume "key \<notin> dom (data k)"
  then have "data k key = None" by auto
  then have generic: "Delete zero k key = (k, (zero, None))"
    by (rule Delete_absent)
  have "Delete zero_string sk skey = (sk, ([], None))" if "skey \<notin> dom (data sk)"
  proof -
    from that have "data sk skey = None" by auto
    then show ?thesis
      by (simp add: Delete_absent zero_string_def)
  qed
  with generic show ?thesis
    by simp
qed

theorem C6_Delete_absent_key_witness:
  "''b'' \<notin> dom (data (fst (Create NewKVStore ''a'' ''1'')))
   \<and> Delete zero_string (fst (Create NewKVStore ''a'' ''1'')) ''b''
       = (fst (Create NewKVStore ''a'' ''1''), ([], None))
   \<and> (''x'' \<notin> dom (data (NewKVStore :: (string, string) KVStore))
       \<and> Delete zero_string (NewKVStore :: (string, string) KVStore) ''x''
           = (NewKVStore, ([], None)))"
proof -
  have absent: "''b'' \<notin> dom (data (fst (Create NewKVStore ''a'' ''1'')))"
    by (simp add: data_Create NewKVStore_def)
  have fresh: "''x'' \<notin> dom (data (NewKVStore :: (string, string) KVStore))"
    by (simp add: NewKVStore_def)
  from C6_Delete_absent_key [OF absent, of zero_string "''x''" NewKVStore] absent fresh
  show ?thesis
    by (simp add: zero_string_def)
qed

text \<open>
  C7. \<open>Create\<close> returns a nil error on every store, key and value; so do \<open>Update\<close> and
  \<open>Delete\<close>; and \<open>Read\<close> returns an error exactly when its key is absent from the map, the
  error being the "does not exist" error for that key.
\<close>

theorem C7_only_Read_fails:
  "snd (Create k key value) = None
   \<and> snd (Update zero k key value) = None
   \<and> snd (snd (Delete zero k key)) = None
   \<and> (snd (Read zero k key) \<noteq> None \<longleftrightarrow> key \<notin> dom (data k))
   \<and> (key \<notin> dom (data k) \<longrightarrow> snd (Read zero k key) = Some (KeyDoesNotExist key))"
proof (cases "data k key")
  case None
  then have "key \<notin> dom (data k)" by auto
  with None show ?thesis
    by (simp add: Create_def Update_absent Delete_absent Read_absent)
next
  case (Some old)
  then have "key \<in> dom (data k)" by auto
  with Some show ?thesis
    by (simp add: Create_def Update_present Delete_present Read_present)
qed

theorem C7_only_Read_fails_witness:
  "''b'' \<notin> dom (data (fst (Create NewKVStore ''a'' ''1'')))
   \<and> snd (Read zero_string (fst (Create NewKVStore ''a'' ''1'')) ''b'')
       = Some (KeyDoesNotExist ''b'')
   \<and> snd (Create (fst (Create NewKVStore ''a'' ''1'')) ''b'' ''2'') = None
   \<and> snd (Update zero_string (fst (Create NewKVStore ''a'' ''1'')) ''b'' ''2'') = None
   \<and> snd (snd (Delete zero_string (fst (Create NewKVStore ''a'' ''1'')) ''b'')) = None"
proof -
  have absent: "''b'' \<notin> dom (data (fst (Create NewKVStore ''a'' ''1'')))"
    by (simp add: data_Create NewKVStore_def)
  from C7_only_Read_fails [of "fst (Create NewKVStore ''a'' ''1'')" "''b''" "''2''" zero_string]
    absent
  show ?thesis
    by simp
qed

text \<open>
  C9. \<open>Create\<close>, \<open>Update\<close> and \<open>Delete\<close> on a key leave every other key as it was: whether it
  is in the map, and with which value.
\<close>

theorem C9_other_keys_unchanged:
  "key' \<noteq> key \<Longrightarrow>
     data (fst (Create k key value)) key' = data k key'
     \<and> data (fst (Update zero k key value)) key' = data k key'
     \<and> data (fst (Delete zero k key)) key' = data k key'"
  by (simp add: data_Create data_Update data_Delete)

theorem C9_other_keys_unchanged_witness:
  "''a'' \<noteq> ''b''
   \<and> data (fst (Create (fst (Create NewKVStore ''a'' ''1'')) ''b'' ''2'')) ''a'' = Some ''1''
   \<and> data (fst (Update zero_string (fst (Create NewKVStore ''a'' ''1'')) ''b'' ''2'')) ''a''
       = Some ''1''
   \<and> data (fst (Delete zero_string (fst (Create NewKVStore ''a'' ''1'')) ''b'')) ''a''
       = Some ''1''"
proof -
  have distinct: "''a'' \<noteq> ''b''"
    by simp
  from C9_other_keys_unchanged
    [OF distinct, of "fst (Create NewKVStore ''a'' ''1'')" "''2''" zero_string]
  show ?thesis
    by (simp add: data_Create)
qed

text \<open>
  C10. On a key that is in the store, \<open>Update\<close> and \<open>Create\<close> with the same value leave the
  same store (and both return a nil error). On every store and for every key, in the map
  or not, \<open>Create\<close> twice in a row with the same key and value leaves the same store and
  returns the same result as \<open>Create\<close> once.
\<close>

theorem C10_Update_is_Create_on_present_key:
  "(key \<in> dom (data k) \<longrightarrow>
      Update zero k key value = Create k key value
      \<and> fst (Update zero k key value) = fst (Create k key value))
   \<and> fst (Create (fst (Create k key value)) key value) = fst (Create k key value)
   \<and> Create (fst (Create k key value)) key value = Create k key value"
proof -
  have same: "Update zero k key value = Create k key value" if "key \<in> dom (data k)"
  proof -
    from that obtain old where "data k key = Some old" by auto
    then show ?thesis
      by (simp add: Update_present Create_def)
  qed
  have twice: "Create (fst (Create k key value)) key value = Create k key value"
    by (simp add: Create_def)
  from same twice show ?thesis
    by simp
qed

theorem C10_Update_is_Create_on_present_key_witness:
  "''a'' \<in> dom (data (fst (Create NewKVStore ''a'' ''1'')))
   \<and> Update zero_string (fst (Create NewKVStore ''a'' ''1'')) ''a'' ''2''
       = Create (fst (Create NewKVStore ''a'' ''1'')) ''a'' ''2''
   \<and> data (fst (Update zero_string (fst (Create NewKVStore ''a'' ''1'')) ''a'' ''2'')) ''a''
       = Some ''2''
   \<and> ''n'' \<notin> dom (data (NewKVStore :: (string, string) KVStore))
   \<and> fst (Create (fst (Create NewKVStore ''n'' ''3'')) ''n'' ''3'')
       = fst (Create NewKVStore ''n'' ''3'')
   \<and> data (fst (Create (fst (Create NewKVStore ''n'' ''3'')) ''n'' ''3'')) ''n'' = Some ''3''"
proof -
  have present: "''a'' \<in> dom (data (fst (Create NewKVStore ''a'' ''1'')))"
    by (simp add: data_Create)
  have fresh: "''n'' \<notin> dom (data (NewKVStore :: (string, string) KVStore))"
    by (simp add: NewKVStore_def)
  from C10_Update_is_Create_on_present_key
         [of "''a''" "fst (Create NewKVStore ''a'' ''1'')" zero_string "''2''"]
       C10_Update_is_Create_on_present_key
         [of "''n''" "NewKVStore :: (string, string) KVStore" zero_string "''3''"]
       present fresh
  show ?thesis
    by (simp add: data_Create)
qed

end
